theory Spec2Isabelle
  imports Main
begin

section \<open>Data model of main.go\<close>

text \<open>
  Go strings are byte sequences; they are modelled as \<open>string\<close> (lists of 8-bit
  characters). A Go \<open>error\<close> value is modelled by its message.
\<close>

type_synonym error = string

text \<open>\<open>const openAIURL\<close> (main.go, line 24).\<close>

definition openAIURL :: string where
  "openAIURL = ''https://api.openai.com/v1/chat/completions''"

text \<open>The structs of main.go, lines 36-60. The two anonymous structs of
  \<open>OpenAIResponse\<close> are named after the fields that hold them.\<close>

record Message =
  Role :: string
  Content :: string

record OpenAIRequest =
  Model :: string
  Messages :: "Message list"
  Stream :: bool

record Delta =
  Content :: string

record Choice =
  Delta :: Delta

record OpenAIResponse =
  Choices :: "Choice list"

record WebSocketMessage =
  Text :: string

section \<open>The surroundings of the program\<close>

text \<open>
  An outbound HTTP request as \<open>streamResponse\<close> builds it: method, URL, the header
  fields set with \<open>Header.Set\<close>, and the body. The body is \<open>json.Marshal\<close> of a
  request value; the model keeps that value in \<open>Payload\<close>, as it keeps the value passed
  to \<open>WriteJSON\<close> for a frame.
\<close>

record http_request =
  Method :: string
  URL :: string
  Header :: "string \<rightharpoonup> string"
  Payload :: OpenAIRequest

text \<open>
  A response body is the bytes that arrive, and what the reader meets after the last of
  them: end of stream (\<open>io.EOF\<close>), another read error, or nothing at all (the upstream
  keeps the stream open and sends no more, so that the read never returns).
\<close>

datatype body_end = EOF | ReadFailure error | Pending

record response =
  Data :: string
  Ending :: body_end

text \<open>
  What the program does not define itself is a parameter of the model: the JSON decoders
  of the libraries, the network behind \<open>http.Client.Do\<close>, and whether the n-th
  \<open>WriteJSON\<close> on the connection fails. A theorem about every \<open>W\<close> holds for
  every behaviour of these; \<open>stdlib\<close> below fills in the decoders of
  \<open>encoding/json\<close>.
\<close>

record world =
  Unmarshal :: "string \<Rightarrow> error + OpenAIResponse"
  Do :: "http_request \<Rightarrow> error + response"
  WriteErr :: "nat \<Rightarrow> error option"
  DecodeMessage :: "string \<Rightarrow> error + WebSocketMessage"

text \<open>
  A websocket connection: the frames the program passed to \<open>WriteJSON\<close>
  (\<open>writeCalls\<close>, in call order), those of them that were written without error
  (\<open>delivered\<close>), and what is still to be read from the client.
\<close>

datatype inbound = Frame string | ReadError error

record Conn =
  writeCalls :: "WebSocketMessage list"
  delivered :: "WebSocketMessage list"
  inbox :: "inbound list"

definition WriteJSON :: "world \<Rightarrow> Conn \<Rightarrow> WebSocketMessage \<Rightarrow> Conn \<times> error option" where
  "WriteJSON W c m =
     (case WriteErr W (length (writeCalls c)) of
        None \<Rightarrow> (c\<lparr>writeCalls := writeCalls c @ [m], delivered := delivered c @ [m]\<rparr>, None)
      | Some e \<Rightarrow> (c\<lparr>writeCalls := writeCalls c @ [m]\<rparr>, Some e))"

section \<open>Library functions the program calls\<close>

subsection \<open>Bytes\<close>

definition byte :: "char \<Rightarrow> nat" where
  "byte c = of_char c"

definition between :: "nat \<Rightarrow> nat \<Rightarrow> char \<Rightarrow> bool" where
  "between lo hi c = (lo \<le> byte c \<and> byte c \<le> hi)"

definition HasPrefix :: "string \<Rightarrow> string \<Rightarrow> bool" where
  "HasPrefix s p = (take (length p) s = p)"

definition HasSuffix :: "string \<Rightarrow> string \<Rightarrow> bool" where
  "HasSuffix s p = (length p \<le> length s \<and> drop (length s - length p) s = p)"

subsection \<open>strings.TrimSpace and strings.TrimPrefix\<close>

text \<open>
  \<open>strings.TrimSpace\<close> removes leading and trailing white space as Unicode defines
  it. On UTF-8 bytes these are six ASCII characters and the encodings of U+0085,
  U+00A0, U+1680, U+2000 to U+200A, U+2028, U+2029, U+202F, U+205F and U+3000.
  \<open>spaceWidth s\<close> is the number of bytes of the white space character that \<open>s\<close>
  starts with, 0 when it starts with none; \<open>spaceWidthRight\<close> is the same for the
  end of \<open>s\<close>.
\<close>

definition asciiSpace :: "char \<Rightarrow> bool" where
  "asciiSpace c = (c = CHR 0x09 \<or> c = CHR 0x0A \<or> c = CHR 0x0B \<or> c = CHR 0x0C
     \<or> c = CHR 0x0D \<or> c = CHR 0x20)"

definition unicodeSpaces :: "string list" where
  "unicodeSpaces =
     [[CHR 0xC2, CHR 0x85], [CHR 0xC2, CHR 0xA0], [CHR 0xE1, CHR 0x9A, CHR 0x80],
      [CHR 0xE2, CHR 0x80, CHR 0x80], [CHR 0xE2, CHR 0x80, CHR 0x81],
      [CHR 0xE2, CHR 0x80, CHR 0x82], [CHR 0xE2, CHR 0x80, CHR 0x83],
      [CHR 0xE2, CHR 0x80, CHR 0x84], [CHR 0xE2, CHR 0x80, CHR 0x85],
      [CHR 0xE2, CHR 0x80, CHR 0x86], [CHR 0xE2, CHR 0x80, CHR 0x87],
      [CHR 0xE2, CHR 0x80, CHR 0x88], [CHR 0xE2, CHR 0x80, CHR 0x89],
      [CHR 0xE2, CHR 0x80, CHR 0x8A], [CHR 0xE2, CHR 0x80, CHR 0xA8],
      [CHR 0xE2, CHR 0x80, CHR 0xA9], [CHR 0xE2, CHR 0x80, CHR 0xAF],
      [CHR 0xE2, CHR 0x81, CHR 0x9F], [CHR 0xE3, CHR 0x80, CHR 0x80]]"

definition spaceWidth :: "string \<Rightarrow> nat" where
  "spaceWidth s =
     (case s of
        [] \<Rightarrow> 0
      | c # _ \<Rightarrow>
          if byte c < 0x80 then (if asciiSpace c then 1 else 0)
          else (case filter (HasPrefix s) unicodeSpaces of [] \<Rightarrow> 0 | u # _ \<Rightarrow> length u))"

definition spaceWidthRight :: "string \<Rightarrow> nat" where
  "spaceWidthRight s =
     (if s = [] then 0
      else if byte (last s) < 0x80 then (if asciiSpace (last s) then 1 else 0)
      else (case filter (HasSuffix s) unicodeSpaces of [] \<Rightarrow> 0 | u # _ \<Rightarrow> length u))"

lemma filter_hd_holds: "filter P xs = u # us \<Longrightarrow> P u"
proof -
  assume "filter P xs = u # us"
  then have "u \<in> set (filter P xs)" by simp
  then show "P u" by simp
qed

lemma HasPrefix_length: "HasPrefix s u \<Longrightarrow> length u \<le> length s"
proof -
  assume "HasPrefix s u"
  then have "length (take (length u) s) = length u"
    by (simp only: HasPrefix_def)
  then show ?thesis by simp
qed

lemma spaceWidth_le: "spaceWidth s \<le> length s"
proof (cases s)
  case Nil
  then show ?thesis by (simp add: spaceWidth_def)
next
  case (Cons c cs)
  show ?thesis
  proof (cases "byte c < 0x80")
    case True
    with Cons show ?thesis by (simp add: spaceWidth_def)
  next
    case False
    show ?thesis
    proof (cases "filter (HasPrefix s) unicodeSpaces")
      case Nil
      with \<open>s = c # cs\<close> False show ?thesis by (simp add: spaceWidth_def)
    next
      case (Cons u us)
      then have "HasPrefix s u" by (rule filter_hd_holds)
      then have "length u \<le> length s" by (rule HasPrefix_length)
      moreover have "spaceWidth s = length u"
        using \<open>s = c # cs\<close> False Cons by (simp add: spaceWidth_def)
      ultimately show ?thesis by simp
    qed
  qed
qed

lemma spaceWidthRight_le: "spaceWidthRight s \<le> length s"
proof (cases "s = []")
  case True
  then show ?thesis by (simp add: spaceWidthRight_def)
next
  case ne: False
  show ?thesis
  proof (cases "byte (last s) < 0x80")
    case True
    with ne show ?thesis by (simp add: spaceWidthRight_def Suc_le_eq)
  next
    case False
    show ?thesis
    proof (cases "filter (HasSuffix s) unicodeSpaces")
      case Nil
      with ne False show ?thesis by (simp add: spaceWidthRight_def)
    next
      case (Cons u us)
      then have "HasSuffix s u" by (rule filter_hd_holds)
      then have "length u \<le> length s" by (simp only: HasSuffix_def)
      moreover have "spaceWidthRight s = length u"
        using ne False Cons by (simp add: spaceWidthRight_def)
      ultimately show ?thesis by simp
    qed
  qed
qed

function TrimLeft :: "string \<Rightarrow> string" where
  "TrimLeft s = (if spaceWidth s = 0 then s else TrimLeft (drop (spaceWidth s) s))"
  by pat_completeness auto
termination
proof (relation "measure length")
  show "wf (measure length)" by simp
next
  fix s :: string
  assume "spaceWidth s \<noteq> 0"
  moreover have "spaceWidth s \<le> length s" by (rule spaceWidth_le)
  ultimately show "(drop (spaceWidth s) s, s) \<in> measure length"
    by simp
qed

declare TrimLeft.simps [simp del]

function TrimRight :: "string \<Rightarrow> string" where
  "TrimRight s =
     (if spaceWidthRight s = 0 then s
      else TrimRight (take (length s - spaceWidthRight s) s))"
  by pat_completeness auto
termination
proof (relation "measure length")
  show "wf (measure length)" by simp
next
  fix s :: string
  assume "spaceWidthRight s \<noteq> 0"
  moreover have "spaceWidthRight s \<le> length s" by (rule spaceWidthRight_le)
  ultimately show "(take (length s - spaceWidthRight s) s, s) \<in> measure length"
    by simp
qed

declare TrimRight.simps [simp del]

definition TrimSpace :: "string \<Rightarrow> string" where
  "TrimSpace s = TrimRight (TrimLeft s)"

text \<open>\<open>strings.TrimPrefix\<close>: the string without the prefix when it has it, the string
  itself otherwise.\<close>

definition TrimPrefix :: "string \<Rightarrow> string \<Rightarrow> string" where
  "TrimPrefix s p = (if HasPrefix s p then drop (length p) s else s)"

subsection \<open>bufio.Reader.ReadString, fmt.Println, os.Getenv\<close>

text \<open>
  \<open>ReadString\<close> on the bytes not yet read: when the delimiter occurs, the bytes up to
  and including its first occurrence, and the bytes left; \<open>None\<close> when it does not
  occur, where the reader returns what is left together with the error that ended the
  body.
\<close>

definition ReadString :: "string \<Rightarrow> char \<Rightarrow> (string \<times> string) option" where
  "ReadString buf delim =
     (case dropWhile (\<lambda>c. c \<noteq> delim) buf of
        [] \<Rightarrow> None
      | _ # rest \<Rightarrow> Some (takeWhile (\<lambda>c. c \<noteq> delim) buf @ [delim], rest))"

lemma ReadString_shorter:
  "ReadString buf delim = Some (line, rest) \<Longrightarrow> length rest < length buf"
proof -
  assume a: "ReadString buf delim = Some (line, rest)"
  then obtain d where d: "dropWhile (\<lambda>c. c \<noteq> delim) buf = d # rest"
    by (auto simp: ReadString_def split: list.splits)
  have "length (dropWhile (\<lambda>c. c \<noteq> delim) buf) \<le> length buf"
    by (rule length_dropWhile_le)
  with d show ?thesis by simp
qed

text \<open>\<open>fmt.Println\<close>: the operands separated by spaces, and a newline.\<close>

fun joinSpace :: "string list \<Rightarrow> string" where
  "joinSpace [] = []"
| "joinSpace [a] = a"
| "joinSpace (a # b # bs) = a @ '' '' @ joinSpace (b # bs)"

definition Println :: "string list \<Rightarrow> string" where
  "Println args = joinSpace args @ ''\<newline>''"

text \<open>\<open>os.Getenv\<close>: the value of the variable, empty when it is not set.\<close>

definition Getenv :: "(string \<rightharpoonup> string) \<Rightarrow> string \<Rightarrow> string" where
  "Getenv env k = (case env k of None \<Rightarrow> '''' | Some v \<Rightarrow> v)"

section \<open>encoding/json: decoding into the structs of main.go\<close>

subsection \<open>Strings of a JSON text\<close>

definition cont :: "char \<Rightarrow> bool" where
  "cont c = between 0x80 0xBF c"

text \<open>\<open>utf8.DecodeRune\<close>, as far as the decoder needs it: the number of bytes of the
  well-formed UTF-8 sequence that the string starts with, 0 when it starts with none.\<close>

definition utf8Width :: "string \<Rightarrow> nat" where
  "utf8Width s =
     (case s of
        [] \<Rightarrow> 0
      | b0 # s1 \<Rightarrow>
          if byte b0 < 0x80 then 1
          else (case s1 of
            [] \<Rightarrow> 0
          | b1 # s2 \<Rightarrow>
              if between 0xC2 0xDF b0 then (if cont b1 then 2 else 0)
              else (case s2 of
                [] \<Rightarrow> 0
              | b2 # s3 \<Rightarrow>
                  if byte b0 = 0xE0 then (if between 0xA0 0xBF b1 \<and> cont b2 then 3 else 0)
                  else if byte b0 = 0xED then (if between 0x80 0x9F b1 \<and> cont b2 then 3 else 0)
                  else if between 0xE1 0xEF b0 then (if cont b1 \<and> cont b2 then 3 else 0)
                  else (case s3 of
                    [] \<Rightarrow> 0
                  | b3 # _ \<Rightarrow>
                      if byte b0 = 0xF0
                      then (if between 0x90 0xBF b1 \<and> cont b2 \<and> cont b3 then 4 else 0)
                      else if between 0xF1 0xF3 b0
                      then (if cont b1 \<and> cont b2 \<and> cont b3 then 4 else 0)
                      else if byte b0 = 0xF4
                      then (if between 0x80 0x8F b1 \<and> cont b2 \<and> cont b3 then 4 else 0)
                      else 0))))"

text \<open>\<open>utf8.EncodeRune\<close> for a code point that is no surrogate.\<close>

definition encodeRune :: "nat \<Rightarrow> string" where
  "encodeRune r =
     (if r < 0x80 then [char_of r]
      else if r < 0x800 then [char_of (0xC0 + r div 0x40), char_of (0x80 + r mod 0x40)]
      else if r < 0x10000 then
        [char_of (0xE0 + r div 0x1000), char_of (0x80 + r div 0x40 mod 0x40),
         char_of (0x80 + r mod 0x40)]
      else
        [char_of (0xF0 + r div 0x40000), char_of (0x80 + r div 0x1000 mod 0x40),
         char_of (0x80 + r div 0x40 mod 0x40), char_of (0x80 + r mod 0x40)])"

definition replacementChar :: nat where
  "replacementChar = 0xFFFD"

definition hexValue :: "char \<Rightarrow> nat option" where
  "hexValue c =
     (if between 0x30 0x39 c then Some (byte c - 0x30)
      else if between 0x61 0x66 c then Some (byte c - 0x61 + 10)
      else if between 0x41 0x46 c then Some (byte c - 0x41 + 10)
      else None)"

text \<open>\<open>getu4\<close>: the value of \<open>\uXXXX\<close> at the start of the string.\<close>

definition getu4 :: "string \<Rightarrow> nat option" where
  "getu4 s =
     (case s of
        e # u # a # b # c # d # _ \<Rightarrow>
          if e = CHR 0x5C \<and> u = CHR ''u'' then
            (case (hexValue a, hexValue b, hexValue c, hexValue d) of
               (Some x3, Some x2, Some x1, Some x0) \<Rightarrow>
                 Some (x3 * 0x1000 + x2 * 0x100 + x1 * 0x10 + x0)
             | _ \<Rightarrow> None)
          else None
      | _ \<Rightarrow> None)"

definition isSurrogate :: "nat \<Rightarrow> bool" where
  "isSurrogate r = (0xD800 \<le> r \<and> r < 0xE000)"

text \<open>\<open>utf16.DecodeRune\<close>: the code point of a surrogate pair, U+FFFD when the two
  are no pair.\<close>

definition utf16DecodeRune :: "nat \<Rightarrow> nat \<Rightarrow> nat" where
  "utf16DecodeRune r1 r2 =
     (if 0xD800 \<le> r1 \<and> r1 < 0xDC00 \<and> 0xDC00 \<le> r2 \<and> r2 < 0xE000
      then (r1 - 0xD800) * 0x400 + (r2 - 0xDC00) + 0x10000
      else replacementChar)"

definition simpleEscape :: "char \<Rightarrow> char option" where
  "simpleEscape c =
     (if c = CHR 0x22 \<or> c = CHR 0x5C \<or> c = CHR ''/'' then Some c
      else if c = CHR ''b'' then Some (CHR 0x08)
      else if c = CHR ''f'' then Some (CHR 0x0C)
      else if c = CHR ''n'' then Some (CHR 0x0A)
      else if c = CHR ''r'' then Some (CHR 0x0D)
      else if c = CHR ''t'' then Some (CHR 0x09)
      else None)"

text \<open>
  One step of \<open>unquote\<close> on the inside of a string literal: the bytes written and the
  number of bytes read, \<open>None\<close> for a control character or an escape that the scanner
  refuses.
\<close>

definition unquoteStep :: "string \<Rightarrow> (string \<times> nat) option" where
  "unquoteStep s =
     (case s of
        [] \<Rightarrow> None
      | c # cs \<Rightarrow>
          if c = CHR 0x5C then
            (case cs of
               [] \<Rightarrow> None
             | e # _ \<Rightarrow>
                 if e = CHR ''u'' then
                   (case getu4 s of
                      None \<Rightarrow> None
                    | Some rr \<Rightarrow>
                        if isSurrogate rr then
                          (case getu4 (drop 6 s) of
                             None \<Rightarrow> Some (encodeRune replacementChar, 6)
                           | Some rr1 \<Rightarrow>
                               if utf16DecodeRune rr rr1 = replacementChar
                               then Some (encodeRune replacementChar, 6)
                               else Some (encodeRune (utf16DecodeRune rr rr1), 12))
                        else Some (encodeRune rr, 6))
                 else (case simpleEscape e of None \<Rightarrow> None | Some x \<Rightarrow> Some ([x], 2)))
          else if c = CHR 0x22 \<or> byte c < 0x20 then None
          else if byte c < 0x80 then Some ([c], 1)
          else if utf8Width s = 0 then Some (encodeRune replacementChar, 1)
          else Some (take (utf8Width s) s, utf8Width s))"

lemma unquoteStep_pos: "unquoteStep s = Some (out, n) \<Longrightarrow> 0 < n"
  by (auto simp: unquoteStep_def split: list.splits if_splits option.splits)

function unquote :: "string \<Rightarrow> string option" where
  "unquote s =
     (if s = [] then Some []
      else (case unquoteStep s of
              None \<Rightarrow> None
            | Some (out, n) \<Rightarrow> map_option ((@) out) (unquote (drop n s))))"
  by pat_completeness auto
termination
proof (relation "measure length")
  show "wf (measure length)" by simp
next
  fix s :: string and x :: "string \<times> nat" and out :: string and n :: nat
  assume "s \<noteq> []" and "unquoteStep s = Some x" and "(out, n) = x"
  then have "0 < n" by (intro unquoteStep_pos [of s out n]) simp
  with \<open>s \<noteq> []\<close> show "(drop n s, s) \<in> measure length" by simp
qed

declare unquote.simps [simp del]

text \<open>The inside of the string literal whose opening quote was just read, and what
  follows its closing quote.\<close>

fun splitString :: "string \<Rightarrow> (string \<times> string) option" where
  "splitString [] = None"
| "splitString [c] = (if c = CHR 0x22 then Some ([], []) else None)"
| "splitString (c # d # cs) =
     (if c = CHR 0x22 then Some ([], d # cs)
      else if c = CHR 0x5C then
        map_option (\<lambda>(s, rest). (c # d # s, rest)) (splitString cs)
      else map_option (\<lambda>(s, rest). (c # s, rest)) (splitString (d # cs)))"

lemma splitString_shorter: "splitString s = Some (raw, rest) \<Longrightarrow> length rest < length s"
  by (induction s arbitrary: raw rest rule: splitString.induct)
     (fastforce split: if_splits)+

subsection \<open>Tokens\<close>

datatype token =
  TBeginObject | TEndObject | TBeginArray | TEndArray | TColon | TComma
  | TString string | TNumber string | TTrue | TFalse | TNull | TInvalid

definition jsonSpace :: "char \<Rightarrow> bool" where
  "jsonSpace c = (c = CHR 0x20 \<or> c = CHR 0x09 \<or> c = CHR 0x0D \<or> c = CHR 0x0A)"

definition isDigit :: "char \<Rightarrow> bool" where
  "isDigit c = between 0x30 0x39 c"

definition numChar :: "char \<Rightarrow> bool" where
  "numChar c = (isDigit c \<or> c = CHR ''-'' \<or> c = CHR ''+'' \<or> c = CHR ''.''
     \<or> c = CHR ''e'' \<or> c = CHR ''E'')"

text \<open>A number literal: an optional minus, 0 or digits that do not start with 0, an
  optional fraction, an optional exponent.\<close>

definition validExp :: "string \<Rightarrow> bool" where
  "validExp s =
     (case s of
        [] \<Rightarrow> True
      | c # cs \<Rightarrow>
          (c = CHR ''e'' \<or> c = CHR ''E'') \<and>
          (case cs of
             [] \<Rightarrow> False
           | d # ds \<Rightarrow>
               if d = CHR ''+'' \<or> d = CHR ''-'' then ds \<noteq> [] \<and> list_all isDigit ds
               else list_all isDigit cs))"

definition validFrac :: "string \<Rightarrow> bool" where
  "validFrac s =
     (case s of
        [] \<Rightarrow> True
      | c # cs \<Rightarrow>
          if c = CHR ''.''
          then takeWhile isDigit cs \<noteq> [] \<and> validExp (dropWhile isDigit cs)
          else validExp s)"

definition validNumber :: "string \<Rightarrow> bool" where
  "validNumber s =
     (let u = (case s of [] \<Rightarrow> [] | c # cs \<Rightarrow> if c = CHR ''-'' then cs else s)
      in case u of
           [] \<Rightarrow> False
         | d # ds \<Rightarrow>
             if d = CHR ''0'' then validFrac ds
             else isDigit d \<and> validFrac (dropWhile isDigit ds))"

text \<open>
  The tokens of a text. Where no token starts, the list ends with \<open>TInvalid\<close>: the
  scanner reports a syntax error at that byte, and reads no further.
\<close>

function lex :: "string \<Rightarrow> token list" where
  "lex s =
     (case s of
        [] \<Rightarrow> []
      | c # cs \<Rightarrow>
          if jsonSpace c then lex cs
          else if c = CHR ''{'' then TBeginObject # lex cs
          else if c = CHR ''}'' then TEndObject # lex cs
          else if c = CHR ''['' then TBeginArray # lex cs
          else if c = CHR '']'' then TEndArray # lex cs
          else if c = CHR '':'' then TColon # lex cs
          else if c = CHR '','' then TComma # lex cs
          else if c = CHR 0x22 then
            (case splitString cs of
               None \<Rightarrow> [TInvalid]
             | Some (raw, rest) \<Rightarrow>
                 (case unquote raw of
                    None \<Rightarrow> [TInvalid]
                  | Some str \<Rightarrow> TString str # lex rest))
          else if c = CHR ''-'' \<or> isDigit c then
            (if validNumber (c # takeWhile numChar cs)
             then TNumber (c # takeWhile numChar cs) # lex (dropWhile numChar cs)
             else [TInvalid])
          else if HasPrefix s ''true'' then TTrue # lex (drop 3 cs)
          else if HasPrefix s ''false'' then TFalse # lex (drop 4 cs)
          else if HasPrefix s ''null'' then TNull # lex (drop 3 cs)
          else [TInvalid])"
  by pat_completeness auto
termination
proof (relation "measure length")
  show "wf (measure length)" by simp
next
  fix s :: string and c :: char and cs raw rest :: string and x :: "string \<times> string"
  assume "s = c # cs" and "splitString cs = Some x" and "(raw, rest) = x"
  then have "length rest < length cs"
    by (intro splitString_shorter [of cs raw rest]) simp
  with \<open>s = c # cs\<close> show "(rest, s) \<in> measure length" by simp
next
  fix s :: string and c :: char and cs :: string
  assume "s = c # cs"
  have "length (dropWhile numChar cs) \<le> length cs" by (rule length_dropWhile_le)
  with \<open>s = c # cs\<close> show "(dropWhile numChar cs, s) \<in> measure length" by simp
qed simp_all

declare lex.simps [simp del]

subsection \<open>Values\<close>

datatype json =
  JNull | JBool bool | JNumber string | JString string
  | JArray "json list" | JObject "(string \<times> json) list"

text \<open>
  The parser is the scanner's machine: a stack of the arrays and objects that are open
  (\<open>parseState\<close>), each with what it holds so far, last first, and what may come
  next. An object that has read a member's name holds it until the value is complete.
\<close>

datatype frame = InArray "json list" | InObject "(string \<times> json) list" "string option"

datatype expect =
  Value | ValueOrEnd | Key | KeyOrEnd | Colon | CommaOrEnd | Done json

definition maxNestingDepth :: nat where
  "maxNestingDepth = 10000"

definition endValue :: "json \<Rightarrow> frame list \<Rightarrow> (expect \<times> frame list) option" where
  "endValue v st =
     (case st of
        [] \<Rightarrow> Some (Done v, [])
      | InArray vs # r \<Rightarrow> Some (CommaOrEnd, InArray (v # vs) # r)
      | InObject kvs None # r \<Rightarrow> None
      | InObject kvs (Some k) # r \<Rightarrow> Some (CommaOrEnd, InObject ((k, v) # kvs) None # r))"

definition pushParseState :: "expect \<Rightarrow> frame \<Rightarrow> frame list \<Rightarrow> (expect \<times> frame list) option" where
  "pushParseState e f st =
     (if length (f # st) \<le> maxNestingDepth then Some (e, f # st) else None)"

definition beginValue :: "token \<Rightarrow> frame list \<Rightarrow> (expect \<times> frame list) option" where
  "beginValue t st =
     (case t of
        TBeginObject \<Rightarrow> pushParseState KeyOrEnd (InObject [] None) st
      | TBeginArray \<Rightarrow> pushParseState ValueOrEnd (InArray []) st
      | TString s \<Rightarrow> endValue (JString s) st
      | TNumber n \<Rightarrow> endValue (JNumber n) st
      | TTrue \<Rightarrow> endValue (JBool True) st
      | TFalse \<Rightarrow> endValue (JBool False) st
      | TNull \<Rightarrow> endValue JNull st
      | _ \<Rightarrow> None)"

definition step :: "expect \<Rightarrow> frame list \<Rightarrow> token \<Rightarrow> (expect \<times> frame list) option" where
  "step e st t =
     (case e of
        Value \<Rightarrow> beginValue t st
      | ValueOrEnd \<Rightarrow>
          (case (t, st) of
             (TEndArray, InArray vs # r) \<Rightarrow> endValue (JArray (rev vs)) r
           | _ \<Rightarrow> beginValue t st)
      | Key \<Rightarrow>
          (case (t, st) of
             (TString k, InObject kvs None # r) \<Rightarrow> Some (Colon, InObject kvs (Some k) # r)
           | _ \<Rightarrow> None)
      | KeyOrEnd \<Rightarrow>
          (case (t, st) of
             (TString k, InObject kvs None # r) \<Rightarrow> Some (Colon, InObject kvs (Some k) # r)
           | (TEndObject, InObject kvs None # r) \<Rightarrow> endValue (JObject (rev kvs)) r
           | _ \<Rightarrow> None)
      | Colon \<Rightarrow> (case t of TColon \<Rightarrow> Some (Value, st) | _ \<Rightarrow> None)
      | CommaOrEnd \<Rightarrow>
          (case (t, st) of
             (TComma, InArray vs # r) \<Rightarrow> Some (Value, st)
           | (TEndArray, InArray vs # r) \<Rightarrow> endValue (JArray (rev vs)) r
           | (TComma, InObject kvs None # r) \<Rightarrow> Some (Key, st)
           | (TEndObject, InObject kvs None # r) \<Rightarrow> endValue (JObject (rev kvs)) r
           | _ \<Rightarrow> None)
      | Done v \<Rightarrow> None)"

text \<open>
  \<open>parse\<close> accepts a token list that is one value and nothing else
  (\<open>checkValid\<close>, for \<open>json.Unmarshal\<close>); \<open>parseFirst\<close> returns the first value
  complete and does not look at what follows it (\<open>json.Decoder.Decode\<close>).
\<close>

fun parse :: "expect \<Rightarrow> frame list \<Rightarrow> token list \<Rightarrow> json option" where
  "parse e st [] = (case e of Done v \<Rightarrow> Some v | _ \<Rightarrow> None)"
| "parse e st (t # ts) =
     (case step e st t of None \<Rightarrow> None | Some (e', st') \<Rightarrow> parse e' st' ts)"

fun parseFirst :: "expect \<Rightarrow> frame list \<Rightarrow> token list \<Rightarrow> json option" where
  "parseFirst e st [] = (case e of Done v \<Rightarrow> Some v | _ \<Rightarrow> None)"
| "parseFirst e st (t # ts) =
     (case e of
        Done v \<Rightarrow> Some v
      | _ \<Rightarrow> (case step e st t of None \<Rightarrow> None | Some (e', st') \<Rightarrow> parseFirst e' st' ts))"

subsection \<open>Storing a value in the structs\<close>

text \<open>
  A member of an object is stored in the struct field whose name equals the member's
  name, or equals it when case is ignored (\<open>equalFold\<close>, where U+017F matches s and
  U+212A matches k). A member that names no field is skipped. The three structs
  have one field each.
\<close>

definition foldByte :: "char \<Rightarrow> nat" where
  "foldByte c = (if between 0x61 0x7A c then byte c - 0x20 else byte c)"

definition isLetter :: "char \<Rightarrow> bool" where
  "isLetter c = (between 0x41 0x5A c \<or> between 0x61 0x7A c)"

fun equalFold :: "string \<Rightarrow> string \<Rightarrow> bool" where
  "equalFold [] t = (t = [])"
| "equalFold (sb # s) [] = False"
| "equalFold (sb # s) (tb # t) =
     (if byte tb < 0x80 then
        (if sb = tb then equalFold s t
         else if isLetter sb \<and> foldByte sb = foldByte tb then equalFold s t
         else False)
      else if (sb = CHR ''s'' \<or> sb = CHR ''S'') \<and> HasPrefix (tb # t) [CHR 0xC5, CHR 0xBF]
      then equalFold s (drop 1 t)
      else if (sb = CHR ''k'' \<or> sb = CHR ''K'') \<and> HasPrefix (tb # t) [CHR 0xE2, CHR 0x84, CHR 0xAA]
      then equalFold s (drop 2 t)
      else False)"

text \<open>
  A value of the wrong JSON type for its field is an \<open>UnmarshalTypeError\<close>; its text
  is abridged here, since the program never reads it. \<open>null\<close> leaves a string or a
  struct as it is and makes a slice nil.
\<close>

definition typeError :: "json \<Rightarrow> error" where
  "typeError v =
     ''json: cannot unmarshal '' @
     (case v of
        JNull \<Rightarrow> ''null'' | JBool b \<Rightarrow> ''bool'' | JNumber n \<Rightarrow> ''number''
      | JString s \<Rightarrow> ''string'' | JArray vs \<Rightarrow> ''array'' | JObject kvs \<Rightarrow> ''object'')"

definition storeString :: "json \<Rightarrow> string \<Rightarrow> error + string" where
  "storeString v cur =
     (case v of JString s \<Rightarrow> Inr s | JNull \<Rightarrow> Inr cur | _ \<Rightarrow> Inl (typeError v))"

fun storeDeltaFields :: "(string \<times> json) list \<Rightarrow> Delta \<Rightarrow> error + Delta" where
  "storeDeltaFields [] d = Inr d"
| "storeDeltaFields ((k, v) # kvs) d =
     (if equalFold ''content'' k then
        (case storeString v (Content d) of
           Inl e \<Rightarrow> Inl e
         | Inr s \<Rightarrow> storeDeltaFields kvs (d\<lparr>Content := s\<rparr>))
      else storeDeltaFields kvs d)"

definition storeDelta :: "json \<Rightarrow> Delta \<Rightarrow> error + Delta" where
  "storeDelta v d =
     (case v of
        JObject kvs \<Rightarrow> storeDeltaFields kvs d
      | JNull \<Rightarrow> Inr d
      | _ \<Rightarrow> Inl (typeError v))"

fun storeChoiceFields :: "(string \<times> json) list \<Rightarrow> Choice \<Rightarrow> error + Choice" where
  "storeChoiceFields [] c = Inr c"
| "storeChoiceFields ((k, v) # kvs) c =
     (if equalFold ''delta'' k then
        (case storeDelta v (Delta c) of
           Inl e \<Rightarrow> Inl e
         | Inr d \<Rightarrow> storeChoiceFields kvs (c\<lparr>Delta := d\<rparr>))
      else storeChoiceFields kvs c)"

definition storeChoice :: "json \<Rightarrow> Choice \<Rightarrow> error + Choice" where
  "storeChoice v c =
     (case v of
        JObject kvs \<Rightarrow> storeChoiceFields kvs c
      | JNull \<Rightarrow> Inr c
      | _ \<Rightarrow> Inl (typeError v))"

text \<open>
  An array is stored in a slice element by element: into the element the slice already
  has at that index (from an earlier member of the same name) or into a zero value, and
  the slice ends with the array. Elements beyond the slice's length that its capacity
  still holds are taken as zero values; they differ from zero only when the member
  occurs three times in one object.
\<close>

definition zeroChoice :: Choice where
  "zeroChoice = \<lparr>Delta = \<lparr>Content = ''''\<rparr>\<rparr>"

fun storeElements :: "json list \<Rightarrow> Choice list \<Rightarrow> error + Choice list" where
  "storeElements [] cur = Inr []"
| "storeElements (v # vs) cur =
     (case storeChoice v (case cur of [] \<Rightarrow> zeroChoice | c # _ \<Rightarrow> c) of
        Inl e \<Rightarrow> Inl e
      | Inr c \<Rightarrow>
          (case storeElements vs (tl cur) of
             Inl e \<Rightarrow> Inl e
           | Inr cs \<Rightarrow> Inr (c # cs)))"

definition storeChoices :: "json \<Rightarrow> Choice list \<Rightarrow> error + Choice list" where
  "storeChoices v cur =
     (case v of
        JArray vs \<Rightarrow> storeElements vs cur
      | JNull \<Rightarrow> Inr []
      | _ \<Rightarrow> Inl (typeError v))"

fun storeResponseFields :: "(string \<times> json) list \<Rightarrow> OpenAIResponse \<Rightarrow> error + OpenAIResponse" where
  "storeResponseFields [] r = Inr r"
| "storeResponseFields ((k, v) # kvs) r =
     (if equalFold ''choices'' k then
        (case storeChoices v (Choices r) of
           Inl e \<Rightarrow> Inl e
         | Inr cs \<Rightarrow> storeResponseFields kvs (r\<lparr>Choices := cs\<rparr>))
      else storeResponseFields kvs r)"

definition storeResponse :: "json \<Rightarrow> OpenAIResponse \<Rightarrow> error + OpenAIResponse" where
  "storeResponse v r =
     (case v of
        JObject kvs \<Rightarrow> storeResponseFields kvs r
      | JNull \<Rightarrow> Inr r
      | _ \<Rightarrow> Inl (typeError v))"

text \<open>\<open>json.Unmarshal(data, &aiResp)\<close> for the fresh \<open>aiResp\<close> of a loop iteration.\<close>

definition syntaxError :: error where
  "syntaxError = ''json: syntax error''"

definition json_Unmarshal :: "string \<Rightarrow> error + OpenAIResponse" where
  "json_Unmarshal data =
     (case parse Value [] (lex data) of
        None \<Rightarrow> Inl syntaxError
      | Some v \<Rightarrow> storeResponse v \<lparr>Choices = []\<rparr>)"

text \<open>
  \<open>json.NewDecoder(r).Decode(&msg)\<close>, which \<open>ReadJSON\<close> calls on the payload of
  a frame, for the fresh \<open>msg\<close> of a loop iteration: the first value of the payload is
  stored, and what follows it is not read.
\<close>

fun storeMessageFields :: "(string \<times> json) list \<Rightarrow> WebSocketMessage \<Rightarrow> error + WebSocketMessage" where
  "storeMessageFields [] m = Inr m"
| "storeMessageFields ((k, v) # kvs) m =
     (if equalFold ''text'' k then
        (case storeString v (Text m) of
           Inl e \<Rightarrow> Inl e
         | Inr s \<Rightarrow> storeMessageFields kvs (m\<lparr>Text := s\<rparr>))
      else storeMessageFields kvs m)"

definition storeMessage :: "json \<Rightarrow> WebSocketMessage \<Rightarrow> error + WebSocketMessage" where
  "storeMessage v m =
     (case v of
        JObject kvs \<Rightarrow> storeMessageFields kvs m
      | JNull \<Rightarrow> Inr m
      | _ \<Rightarrow> Inl (typeError v))"

definition json_Decode :: "string \<Rightarrow> error + WebSocketMessage" where
  "json_Decode payload =
     (case parseFirst Value [] (lex payload) of
        None \<Rightarrow> Inl syntaxError
      | Some v \<Rightarrow> storeMessage v \<lparr>Text = ''''\<rparr>)"

text \<open>The surroundings with the decoders of \<open>encoding/json\<close>, a given network and
  given write failures.\<close>

definition stdlib :: "(http_request \<Rightarrow> error + response) \<Rightarrow> (nat \<Rightarrow> error option) \<Rightarrow> world" where
  "stdlib net wr =
     \<lparr>Unmarshal = json_Unmarshal, Do = net, WriteErr = wr, DecodeMessage = json_Decode\<rparr>"

section \<open>streamResponse (main.go, lines 138-204)\<close>

text \<open>
  The state of one relay task: the connection it writes to, what it printed, the
  requests it passed to \<open>client.Do\<close>, the local variable \<open>isFirstToken\<close>, and
  whether the function has returned.
\<close>

record task =
  conn :: Conn
  stdout :: string
  requests :: "http_request list"
  isFirstToken :: bool
  returned :: bool

text \<open>The body of the read loop after a line was read (lines 177-202). The result of
  \<open>WriteJSON\<close> is not looked at.\<close>

definition processLine :: "world \<Rightarrow> task \<Rightarrow> string \<Rightarrow> task" where
  "processLine W t line0 =
     (let line = TrimSpace line0 in
      if line = '''' \<or> line = ''data: [DONE]'' then t
      else
        let line = TrimPrefix line ''data: '' in
        case Unmarshal W line of
          Inl err \<Rightarrow> t
        | Inr aiResp \<Rightarrow>
            if length (Choices aiResp) > 0 then
              let content = Content (Delta (Choices aiResp ! 0)) in
              if content \<noteq> '''' then
                if isFirstToken t then
                  t\<lparr>conn := fst (WriteJSON W (conn t) \<lparr>Text = ''AI: '' @ content\<rparr>),
                    isFirstToken := False\<rparr>
                else
                  t\<lparr>conn := fst (WriteJSON W (conn t) \<lparr>Text = content\<rparr>)\<rparr>
              else t
            else t)"

text \<open>
  The read loop (lines 166-203) over the bytes not yet read. When \<open>ReadString\<close> finds
  no newline it returns an error and the loop ends, the bytes after the last newline
  unused; with a body that stays open the call never returns, and neither does the task.
\<close>

function streamLoop :: "world \<Rightarrow> body_end \<Rightarrow> string \<Rightarrow> task \<Rightarrow> task" where
  "streamLoop W e buf t =
     (case ReadString buf (CHR 0x0A) of
        None \<Rightarrow>
          (case e of
             EOF \<Rightarrow> t\<lparr>returned := True\<rparr>
           | ReadFailure err \<Rightarrow>
               t\<lparr>stdout := stdout t @ Println [''Error reading stream:'', err],
                 returned := True\<rparr>
           | Pending \<Rightarrow> t)
      | Some (line, rest) \<Rightarrow> streamLoop W e rest (processLine W t line))"
  by pat_completeness auto
termination
proof (relation "measure (\<lambda>(W, e, buf, t). length buf)")
  show "wf (measure (\<lambda>(W, e, buf, t). length buf))" by simp
next
  fix W :: world and e :: body_end and buf :: string and t :: task
    and x :: "string \<times> string" and line rest :: string
  assume "ReadString buf (CHR 0x0A) = Some x" and "(line, rest) = x"
  then have "length rest < length buf"
    by (intro ReadString_shorter [of buf "CHR 0x0A" line rest]) simp
  then show "((W, e, rest, processLine W t line), (W, e, buf, t))
      \<in> measure (\<lambda>(W, e, buf, t). length buf)"
    by simp
qed

declare streamLoop.simps [simp del]

text \<open>The request (lines 140-153), with the global \<open>openAIKey\<close>.\<close>

definition buildRequest :: "string \<Rightarrow> string \<Rightarrow> http_request" where
  "buildRequest openAIKey message =
     (let openAIReq = \<lparr>Model = ''gpt-4o-mini'',
                       Messages = [\<lparr>Role = ''user'', Content = message\<rparr>],
                       Stream = True\<rparr>;
          req = \<lparr>Method = ''POST'', URL = openAIURL, Header = Map.empty, Payload = openAIReq\<rparr>;
          req = req\<lparr>Header := (Header req)(''Content-Type'' \<mapsto> ''application/json'')\<rparr>;
          req = req\<lparr>Header := (Header req)(''Authorization'' \<mapsto> ''Bearer '' @ openAIKey)\<rparr>
      in req)"

text \<open>The task started on a connection in state \<open>c\<close>.\<close>

definition newTask :: "Conn \<Rightarrow> task" where
  "newTask c = \<lparr>conn = c, stdout = '''', requests = [], isFirstToken = True, returned = False\<rparr>"

definition streamResponse :: "world \<Rightarrow> string \<Rightarrow> string \<Rightarrow> Conn \<Rightarrow> task" where
  "streamResponse W openAIKey message c =
     (let req = buildRequest openAIKey message;
          t = (newTask c)\<lparr>requests := [req]\<rparr>
      in case Do W req of
           Inl err \<Rightarrow>
             t\<lparr>stdout := stdout t @ Println [''Error calling OpenAI API:'', err],
               returned := True\<rparr>
         | Inr resp \<Rightarrow> streamLoop W (Ending resp) (Data resp) t)"

section \<open>handleWebSocket (main.go, lines 115-134)\<close>

text \<open>
  \<open>ReadJSON\<close> takes the next thing from the client: \<open>None\<close> when there is nothing
  (the call does not return), an error when the read failed or the payload does not
  decode, the message otherwise.
\<close>

definition ReadJSON :: "world \<Rightarrow> Conn \<Rightarrow> (Conn \<times> (error + WebSocketMessage)) option" where
  "ReadJSON W c =
     (case inbox c of
        [] \<Rightarrow> None
      | ReadError e # rest \<Rightarrow> Some (c\<lparr>inbox := rest\<rparr>, Inl e)
      | Frame payload # rest \<Rightarrow> Some (c\<lparr>inbox := rest\<rparr>, DecodeMessage W payload))"

text \<open>
  The state of one handler: the global map \<open>clients\<close> (connections are named by
  numbers), the connection, the texts for which \<open>go streamResponse(msg.Text, c)\<close> was
  run, in order, whether the loop was left, and whether the function has returned.
\<close>

record handler =
  clients :: "nat \<rightharpoonup> bool"
  hconn :: Conn
  spawned :: "string list"
  broke :: bool
  finished :: bool

function acceptLoop :: "world \<Rightarrow> handler \<Rightarrow> handler" where
  "acceptLoop W h =
     (case ReadJSON W (hconn h) of
        None \<Rightarrow> h
      | Some (c, Inl err) \<Rightarrow> h\<lparr>hconn := c, broke := True\<rparr>
      | Some (c, Inr msg) \<Rightarrow> acceptLoop W (h\<lparr>hconn := c, spawned := spawned h @ [Text msg]\<rparr>))"
  by pat_completeness auto
termination
proof (relation "measure (\<lambda>(W, h). length (inbox (hconn h)))")
  show "wf (measure (\<lambda>(W, h). length (inbox (hconn h))))" by simp
next
  fix W :: world and h :: handler and x :: "Conn \<times> (error + WebSocketMessage)"
    and c :: Conn and r :: "error + WebSocketMessage" and msg :: WebSocketMessage
  assume "ReadJSON W (hconn h) = Some x" and "(c, r) = x" and "r = Inr msg"
  then have "length (inbox c) < length (inbox (hconn h))"
    by (auto simp: ReadJSON_def split: list.splits inbound.splits)
  then show "((W, h\<lparr>hconn := c, spawned := spawned h @ [Text msg]\<rparr>), (W, h))
      \<in> measure (\<lambda>(W, h). length (inbox (hconn h)))"
    by simp
qed

declare acceptLoop.simps [simp del]

definition handleWebSocket :: "world \<Rightarrow> (nat \<rightharpoonup> bool) \<Rightarrow> nat \<Rightarrow> Conn \<Rightarrow> handler" where
  "handleWebSocket W cl c s =
     (let h = acceptLoop W
                \<lparr>clients = cl(c \<mapsto> True), hconn = s, spawned = [], broke = False,
                  finished = False\<rparr>
      in if broke h then h\<lparr>clients := (clients h)(c := None), finished := True\<rparr> else h)"

section \<open>main (main.go, lines 71-104)\<close>

datatype route = Static string string | Get string string

text \<open>
  \<open>app.Listen\<close> belongs to the web framework, and whether an address can be bound
  is up to the host. It is a parameter of \<open>main\<close>: for an address, \<open>None\<close> when the
  listener is bound, where the call serves and does not return, and the error when it
  is not. \<open>main\<close> does not look at the result.

  What the process has done when \<open>main\<close> returns or serves: what \<open>main\<close> itself
  printed, the global \<open>openAIKey\<close>, the routes of the app, the addresses it gave to
  \<open>app.Listen\<close>, the address it serves on, if it serves, and whether \<open>main\<close> has
  returned.
\<close>

record process =
  printed :: string
  openAIKey :: string
  routes :: "route list"
  listenCalls :: "string list"
  serving :: "string option"
  exited :: bool

definition main :: "(string \<rightharpoonup> string) \<Rightarrow> (string \<Rightarrow> error option) \<Rightarrow> process" where
  "main env Listen =
     (let key = Getenv env ''OPENAI_API_KEY'' in
      if key = [] then
        \<lparr>printed = Println [''Please set the OPENAI_API_KEY environment variable''],
         openAIKey = key, routes = [], listenCalls = [], serving = None, exited = True\<rparr>
      else
        let app = [Static ''/'' ''./static'', Get ''/'' ''handleHome'',
                   Get ''/ws'' ''handleWebSocket''];
            port = Getenv env ''PORT'';
            port = (if port = [] then ''8080'' else port);
            out = ''Server starting on :'' @ port @ ''\<newline>''
        in case Listen ('':'' @ port) of
             None \<Rightarrow>
               \<lparr>printed = out, openAIKey = key, routes = app,
                listenCalls = ['':'' @ port], serving = Some ('':'' @ port), exited = False\<rparr>
           | Some err \<Rightarrow>
               \<lparr>printed = out, openAIKey = key, routes = app,
                listenCalls = ['':'' @ port], serving = None, exited = True\<rparr>)"

section \<open>The vocabulary of the statements\<close>

subsection \<open>What a relay task is to emit\<close>

text \<open>
  The lines of a body are what successive \<open>ReadString\<close> calls return: the bytes up to
  each newline, the newline included.
\<close>

function upstreamLines :: "string \<Rightarrow> string list" where
  "upstreamLines buf =
     (case ReadString buf (CHR 0x0A) of
        None \<Rightarrow> []
      | Some (line, rest) \<Rightarrow> line # upstreamLines rest)"
  by pat_completeness auto
termination
proof (relation "measure length")
  show "wf (measure length)" by simp
next
  fix buf :: string and x :: "string \<times> string" and line rest :: string
  assume "ReadString buf (CHR 0x0A) = Some x" and "(line, rest) = x"
  then have "length rest < length buf"
    by (intro ReadString_shorter [of buf "CHR 0x0A" line rest]) simp
  then show "(rest, buf) \<in> measure length" by simp
qed

declare upstreamLines.simps [simp del]

text \<open>
  The \<open>delta.content\<close> of the first choice of what the decoder returned: empty
  when it returned an error or a value without choices.
\<close>

definition firstContent :: "error + OpenAIResponse \<Rightarrow> string" where
  "firstContent r =
     (case r of
        Inl err \<Rightarrow> ''''
      | Inr aiResp \<Rightarrow> (case Choices aiResp of [] \<Rightarrow> '''' | c # _ \<Rightarrow> Content (Delta c)))"

text \<open>
  The fragment of a line as it was read: empty for a line that is empty or the sentinel
  after trimming, the first content of the rest after \<open>data: \<close> otherwise.
\<close>

definition deltaContent :: "world \<Rightarrow> string \<Rightarrow> string" where
  "deltaContent W line0 =
     (let line = TrimSpace line0 in
      if line = '''' \<or> line = ''data: [DONE]'' then ''''
      else firstContent (Unmarshal W (TrimPrefix line ''data: '')))"

text \<open>The lines of the body that the upstream answered with, none when the request
  failed.\<close>

definition upstream :: "world \<Rightarrow> http_request \<Rightarrow> string list" where
  "upstream W req = (case Do W req of Inl err \<Rightarrow> [] | Inr resp \<Rightarrow> upstreamLines (Data resp))"

text \<open>The frames a task passed to \<open>WriteJSON\<close>, given the connection it started on.\<close>

definition emitted :: "Conn \<Rightarrow> task \<Rightarrow> string list" where
  "emitted c t = map Text (drop (length (writeCalls c)) (writeCalls (conn t)))"

definition withoutPrefix :: "string list \<Rightarrow> string list" where
  "withoutPrefix fs = (case fs of [] \<Rightarrow> [] | f # r \<Rightarrow> TrimPrefix f ''AI: '' # r)"

fun frames :: "bool \<Rightarrow> string list \<Rightarrow> WebSocketMessage list" where
  "frames first [] = []"
| "frames first (c # cs) = \<lparr>Text = (if first then ''AI: '' @ c else c)\<rparr> # frames False cs"

text \<open>
  A line as it was read is unusable when, after trimming, it is empty or the sentinel,
  or the decoder refuses its rest after \<open>data: \<close>.
\<close>

definition skipped :: "world \<Rightarrow> string \<Rightarrow> bool" where
  "skipped W line0 =
     (let line = TrimSpace line0 in
      line = '''' \<or> line = ''data: [DONE]'' \<or> isl (Unmarshal W (TrimPrefix line ''data: '')))"

subsection \<open>Runs of the program\<close>

text \<open>
  Concrete surroundings for running the model: a connection on which nothing was
  written yet, a network that answers every request with a given body, and writes that
  all succeed.
\<close>

definition freshConn :: Conn where
  "freshConn = \<lparr>writeCalls = [], delivered = [], inbox = []\<rparr>"

definition answers :: "string \<Rightarrow> body_end \<Rightarrow> http_request \<Rightarrow> error + response" where
  "answers b e req = Inr \<lparr>Data = b, Ending = e\<rparr>"

definition allWritten :: "nat \<Rightarrow> error option" where
  "allWritten n = None"

text \<open>A network on which no connection can be made.\<close>

definition unreachable :: "http_request \<Rightarrow> error + response" where
  "unreachable req = Inl ''dial tcp: connection refused''"

subsection \<open>Reads of the accept loop\<close>

text \<open>
  A read fails when the connection reports an error (the client closed it, or the
  network failed) and when the payload of a frame does not decode.
\<close>

definition readFails :: "world \<Rightarrow> inbound \<Rightarrow> bool" where
  "readFails W i = (case i of ReadError e \<Rightarrow> True | Frame payload \<Rightarrow> isl (DecodeMessage W payload))"

definition messageText :: "world \<Rightarrow> inbound \<Rightarrow> string" where
  "messageText W i =
     (case i of
        ReadError e \<Rightarrow> ''''
      | Frame payload \<Rightarrow> (case DecodeMessage W payload of Inl e \<Rightarrow> '''' | Inr msg \<Rightarrow> Text msg))"

text \<open>Writes of which the first fails and the others succeed.\<close>

definition firstWriteFails :: "nat \<Rightarrow> error option" where
  "firstWriteFails n = (if n = 0 then Some ''write: broken pipe'' else None)"

text \<open>
  The run of the specification's scenario A: the upstream answers with two chunks and
  the sentinel, and then ends the body.
\<close>

definition bodyA :: string where
  \<open>bodyA =
     ''data: {"choices":[{"delta":{"content":"Hi"}}]}\<newline>'' @
     ''data: {"choices":[{"delta":{"content":" there"}}]}\<newline>'' @
     ''data: [DONE]\<newline>''\<close>

definition worldA :: world where
  "worldA = stdlib (answers bodyA EOF) allWritten"

subsection \<open>Hosts\<close>

text \<open>A host on which every address can be bound, and one on which the port name
  \<open>notaport\<close> is not known, as on any host that has no service of that name.\<close>

definition anyPort :: "string \<Rightarrow> error option" where
  "anyPort addr = None"

definition unknownPort :: "string \<Rightarrow> error option" where
  "unknownPort addr =
     (if addr = '':notaport'' then Some ''listen tcp: lookup tcp/notaport: unknown port''
      else None)"

section \<open>Lemmas about the loop\<close>

lemmas strings_eval =
  TrimSpace_def TrimLeft.simps TrimRight.simps spaceWidth_def spaceWidthRight_def
  asciiSpace_def byte_def between_def HasPrefix_def HasSuffix_def TrimPrefix_def
  unicodeSpaces_def ReadString_def Println_def

lemmas json_eval =
  json_Unmarshal_def json_Decode_def lex.simps jsonSpace_def unquote.simps unquoteStep_def
  isDigit_def numChar_def validNumber_def validFrac_def validExp_def utf8Width_def
  cont_def step_def beginValue_def endValue_def pushParseState_def maxNestingDepth_def
  storeResponse_def storeChoices_def storeChoice_def storeDelta_def storeString_def
  storeMessage_def isLetter_def foldByte_def zeroChoice_def typeError_def syntaxError_def
  simpleEscape_def

lemmas relay_eval =
  streamResponse_def buildRequest_def newTask_def streamLoop.simps processLine_def
  WriteJSON_def stdlib_def answers_def allWritten_def freshConn_def Let_def

lemma writeCalls_WriteJSON: "writeCalls (fst (WriteJSON W c m)) = writeCalls c @ [m]"
  by (simp add: WriteJSON_def split: option.splits)

lemma processLine_silent:
  "deltaContent W l = '''' \<Longrightarrow> processLine W t l = t"
  by (auto simp: processLine_def deltaContent_def firstContent_def Let_def
           split: sum.splits list.splits if_splits)

lemma processLine_emits:
  "deltaContent W l \<noteq> '''' \<Longrightarrow>
   processLine W t l =
     t\<lparr>conn := fst (WriteJSON W (conn t)
                  \<lparr>Text = (if isFirstToken t then ''AI: '' else '''') @ deltaContent W l\<rparr>),
       isFirstToken := False\<rparr>"
  by (auto simp: processLine_def deltaContent_def firstContent_def Let_def
           split: sum.splits list.splits if_splits)

lemma writeCalls_processLine:
  "writeCalls (conn (processLine W t l)) =
     writeCalls (conn t) @ frames (isFirstToken t) (filter (\<lambda>s. s \<noteq> '''') [deltaContent W l])"
proof (cases "deltaContent W l = ''''")
  case True
  then show ?thesis by (simp add: processLine_silent)
next
  case False
  then show ?thesis by (simp add: processLine_emits writeCalls_WriteJSON)
qed

lemma isFirstToken_processLine:
  "isFirstToken (processLine W t l) = (isFirstToken t \<and> deltaContent W l = '''')"
proof (cases "deltaContent W l = ''''")
  case True
  then show ?thesis by (simp add: processLine_silent)
next
  case False
  then show ?thesis by (simp add: processLine_emits)
qed

lemma streamLoop_None:
  "ReadString buf (CHR 0x0A) = None \<Longrightarrow>
   streamLoop W e buf t =
     (case e of
        EOF \<Rightarrow> t\<lparr>returned := True\<rparr>
      | ReadFailure err \<Rightarrow>
          t\<lparr>stdout := stdout t @ Println [''Error reading stream:'', err], returned := True\<rparr>
      | Pending \<Rightarrow> t)"
  by (subst streamLoop.simps) simp

lemma streamLoop_Some:
  "ReadString buf (CHR 0x0A) = Some (line, rest) \<Longrightarrow>
   streamLoop W e buf t = streamLoop W e rest (processLine W t line)"
  by (subst streamLoop.simps) simp

lemma upstreamLines_None: "ReadString buf (CHR 0x0A) = None \<Longrightarrow> upstreamLines buf = []"
  by (subst upstreamLines.simps) simp

lemma upstreamLines_Some:
  "ReadString buf (CHR 0x0A) = Some (line, rest) \<Longrightarrow>
   upstreamLines buf = line # upstreamLines rest"
  by (subst upstreamLines.simps) simp

text \<open>What the loop leaves on the connection: the frames of the fragments of the lines,
  in the order of the lines.\<close>

lemma writeCalls_streamLoop:
  "writeCalls (conn (streamLoop W e buf t)) =
     writeCalls (conn t) @
     frames (isFirstToken t)
       (filter (\<lambda>s. s \<noteq> '''') (map (deltaContent W) (upstreamLines buf)))"
proof (induction W e buf t rule: streamLoop.induct)
  case (1 W e buf t)
  show ?case
  proof (cases "ReadString buf (CHR 0x0A)")
    case None
    then show ?thesis
      by (cases e) (simp_all add: streamLoop_None upstreamLines_None)
  next
    case (Some x)
    obtain line rest where x: "x = (line, rest)" by (cases x)
    have "writeCalls (conn (streamLoop W e rest (processLine W t line))) =
        writeCalls (conn (processLine W t line)) @
        frames (isFirstToken (processLine W t line))
          (filter (\<lambda>s. s \<noteq> '''') (map (deltaContent W) (upstreamLines rest)))"
      using "1.IH" [OF Some x [symmetric]] .
    then show ?thesis
      using Some x
      by (cases "deltaContent W line = []")
         (simp_all add: streamLoop_Some upstreamLines_Some writeCalls_processLine
            isFirstToken_processLine)
  qed
qed

lemma requests_processLine: "requests (processLine W t l) = requests t"
  by (cases "deltaContent W l = []") (simp_all add: processLine_silent processLine_emits)

lemma requests_streamLoop: "requests (streamLoop W e buf t) = requests t"
proof (induction W e buf t rule: streamLoop.induct)
  case (1 W e buf t)
  show ?case
  proof (cases "ReadString buf (CHR 0x0A)")
    case None
    then show ?thesis by (cases e) (simp_all add: streamLoop_None)
  next
    case (Some x)
    obtain line rest where x: "x = (line, rest)" by (cases x)
    show ?thesis
      using "1.IH" [OF Some x [symmetric]] Some x
      by (simp add: streamLoop_Some requests_processLine)
  qed
qed

lemma emitted_streamResponse:
  "emitted c (streamResponse W key message c) =
     map Text (frames True (filter (\<lambda>s. s \<noteq> '''')
       (map (deltaContent W) (upstream W (buildRequest key message)))))"
  by (cases "Do W (buildRequest key message)")
     (simp_all add: emitted_def streamResponse_def upstream_def newTask_def Let_def
        writeCalls_streamLoop)

lemma map_Text_frames_False: "map Text (frames False fs) = fs"
  by (induction fs) simp_all

lemma concat_nonempty: "concat (filter (\<lambda>s. s \<noteq> []) xs) = concat xs"
  by (induction xs) simp_all

text \<open>Scenario A, evaluated: the lines of its body and their fragments.\<close>

lemma upstream_worldA:
  \<open>upstream worldA req =
     [''data: {"choices":[{"delta":{"content":"Hi"}}]}\<newline>'',
      ''data: {"choices":[{"delta":{"content":" there"}}]}\<newline>'',
      ''data: [DONE]\<newline>'']\<close>
  by (simp add: upstream_def worldA_def bodyA_def stdlib_def answers_def upstreamLines.simps
      ReadString_def)

lemma deltaContent_worldA:
  \<open>deltaContent worldA ''data: {"choices":[{"delta":{"content":"Hi"}}]}\<newline>'' = ''Hi''\<close>
  \<open>deltaContent worldA ''data: {"choices":[{"delta":{"content":" there"}}]}\<newline>'' = '' there''\<close>
  \<open>deltaContent worldA ''data: [DONE]\<newline>'' = ''''\<close>
  by (simp_all add: deltaContent_def firstContent_def worldA_def stdlib_def strings_eval
      json_eval)

section \<open>The relay task\<close>

text \<open>
  C1. The fragments a relay task emits, the first one without its \<open>"AI: "\<close> prefix,
  are the non-empty \<open>delta.content\<close> values of the first choices of the lines of the
  body, in the order of the lines; so their concatenation is the concatenation of the
  \<open>delta.content\<close> values of all lines.
\<close>

theorem relay_round_trip:
  "withoutPrefix (emitted c (streamResponse W key message c)) =
     filter (\<lambda>s. s \<noteq> '''') (map (deltaContent W) (upstream W (buildRequest key message)))
   \<and> concat (withoutPrefix (emitted c (streamResponse W key message c))) =
     concat (map (deltaContent W) (upstream W (buildRequest key message)))"
proof -
  let ?fs = "filter (\<lambda>s. s \<noteq> '''') (map (deltaContent W) (upstream W (buildRequest key message)))"
  have "withoutPrefix (map Text (frames True ?fs)) = ?fs"
    by (cases ?fs)
       (simp_all add: withoutPrefix_def TrimPrefix_def HasPrefix_def map_Text_frames_False)
  then have a: "withoutPrefix (emitted c (streamResponse W key message c)) = ?fs"
    by (simp only: emitted_streamResponse)
  then show ?thesis by (simp add: concat_nonempty)
qed

theorem relay_round_trip_witness:
  "withoutPrefix (emitted freshConn (streamResponse worldA ''k'' ''hello'' freshConn)) =
     [''Hi'', '' there'']
   \<and> concat (withoutPrefix (emitted freshConn (streamResponse worldA ''k'' ''hello'' freshConn))) =
     ''Hi there''"
  using relay_round_trip [of freshConn worldA "''k''" "''hello''"]
  by (simp add: upstream_worldA deltaContent_worldA)

text \<open>
  C2. Of the frames a relay task emits, the first is \<open>"AI: "\<close> followed by the first
  non-empty fragment, and every later one is its fragment and nothing else; there are as
  many frames as non-empty fragments, be that none, one or many.
\<close>

theorem first_fragment_prefixed:
  "emitted c (streamResponse W key message c) =
     (case filter (\<lambda>s. s \<noteq> '''')
             (map (deltaContent W) (upstream W (buildRequest key message))) of
        [] \<Rightarrow> []
      | f # fs \<Rightarrow> (''AI: '' @ f) # fs)"
  by (simp add: emitted_streamResponse map_Text_frames_False split: list.splits)

theorem first_fragment_prefixed_witness:
  "emitted freshConn (streamResponse worldA ''k'' ''hello'' freshConn) =
     [''AI: Hi'', '' there'']"
  using first_fragment_prefixed [of freshConn worldA "''k''" "''hello''"]
  by (simp add: upstream_worldA deltaContent_worldA)

text \<open>
  C3. A relay task for the text \<open>T\<close> passes one request to \<open>client.Do\<close>: a POST to
  the endpoint, whose body is the JSON of the model identifier, the one message with
  role \<open>user\<close> and content \<open>T\<close>, and \<open>stream\<close> true, with the two header fields.
\<close>

theorem one_request_per_message:
  "requests (streamResponse W key T c) =
     [\<lparr>Method = ''POST'', URL = openAIURL,
       Header = [''Content-Type'' \<mapsto> ''application/json'',
                 ''Authorization'' \<mapsto> ''Bearer '' @ key],
       Payload = \<lparr>Model = ''gpt-4o-mini'',
                   Messages = [\<lparr>Role = ''user'', Content = T\<rparr>],
                   Stream = True\<rparr>\<rparr>]"
  by (cases "Do W (buildRequest key T)")
     (simp_all add: streamResponse_def buildRequest_def newTask_def Let_def
        requests_streamLoop)

text \<open>
  C4, as the specification states it, fails: in this run the sentinel is the first line of the
  body, and the task goes on to emit the fragment of the line after it.
\<close>

theorem frame_after_sentinel:
  \<open>emitted freshConn
     (streamResponse
        (stdlib (answers ''data: [DONE]\<newline>data: {"choices":[{"delta":{"content":"Hi"}}]}\<newline>'' EOF)
           allWritten)
        ''k'' ''hello'' freshConn) = [''AI: Hi'']\<close>
  by (simp add: emitted_def relay_eval strings_eval json_eval)

lemma returned_processLine: "returned (processLine W t l) = returned t"
  by (cases "deltaContent W l = []") (simp_all add: processLine_silent processLine_emits)

lemma returned_streamLoop: "returned (streamLoop W e buf t) = (returned t \<or> e \<noteq> Pending)"
proof (induction W e buf t rule: streamLoop.induct)
  case (1 W e buf t)
  show ?case
  proof (cases "ReadString buf (CHR 0x0A)")
    case None
    then show ?thesis by (cases e) (simp_all add: streamLoop_None)
  next
    case (Some x)
    obtain line rest where x: "x = (line, rest)" by (cases x)
    show ?thesis
      using "1.IH" [OF Some x [symmetric]] Some x
      by (simp add: streamLoop_Some returned_processLine)
  qed
qed

lemma ReadString_line:
  "CHR 0x0A \<notin> set l \<Longrightarrow> ReadString (l @ ''\<newline>'' @ rest) (CHR 0x0A) = Some (l @ ''\<newline>'', rest)"
proof -
  assume a: "CHR 0x0A \<notin> set l"
  then have "\<forall>c \<in> set l. c \<noteq> CHR 0x0A" by auto
  then have "dropWhile (\<lambda>c. c \<noteq> CHR 0x0A) (l @ ''\<newline>'' @ rest) = ''\<newline>'' @ rest"
    and "takeWhile (\<lambda>c. c \<noteq> CHR 0x0A) (l @ ''\<newline>'' @ rest) = l"
    by (simp_all add: dropWhile_append takeWhile_append)
  then show ?thesis by (simp add: ReadString_def)
qed

text \<open>
  C4, as the program has it. A relay task returns when reading the body fails, at its
  end or with another error, and not before: not while the body stays open, and not at
  the sentinel, which is skipped like an empty line.
\<close>

theorem task_returns_when_body_ends:
  "returned (streamResponse W key message c) =
     (case Do W (buildRequest key message) of
        Inl err \<Rightarrow> True
      | Inr resp \<Rightarrow> Ending resp \<noteq> Pending)
   \<and> streamLoop W e (''data: [DONE]\<newline>'' @ buf) t = streamLoop W e buf t"
proof
  show "returned (streamResponse W key message c) =
     (case Do W (buildRequest key message) of
        Inl err \<Rightarrow> True
      | Inr resp \<Rightarrow> Ending resp \<noteq> Pending)"
    by (cases "Do W (buildRequest key message)")
       (simp_all add: streamResponse_def newTask_def Let_def returned_streamLoop)
next
  have "streamLoop W e (''data: [DONE]'' @ ''\<newline>'' @ buf) t =
      streamLoop W e buf (processLine W t (''data: [DONE]'' @ ''\<newline>''))"
    by (rule streamLoop_Some, rule ReadString_line) simp
  moreover have "processLine W t (''data: [DONE]'' @ ''\<newline>'') = t"
    by (simp add: processLine_def strings_eval)
  ultimately show "streamLoop W e (''data: [DONE]\<newline>'' @ buf) t = streamLoop W e buf t"
    by simp
qed

text \<open>
  C5. A line that after trimming is empty or the sentinel, or whose rest after
  \<open>data: \<close> the decoder refuses, leaves the task as it was, no frame written, and the
  loop goes on with the lines after it.
\<close>

theorem unusable_line_skipped:
  assumes "skipped W (l @ ''\<newline>'')" and "CHR 0x0A \<notin> set l"
  shows "processLine W t (l @ ''\<newline>'') = t
    \<and> streamLoop W e (l @ ''\<newline>'' @ rest) t = streamLoop W e rest t"
proof -
  have "deltaContent W (l @ ''\<newline>'') = []"
    using assms(1)
    by (auto simp: skipped_def deltaContent_def firstContent_def Let_def isl_def)
  then have a: "processLine W t (l @ ''\<newline>'') = t"
    by (rule processLine_silent)
  have "streamLoop W e (l @ ''\<newline>'' @ rest) t =
      streamLoop W e rest (processLine W t (l @ ''\<newline>''))"
    by (rule streamLoop_Some, rule ReadString_line) (rule assms(2))
  with a show ?thesis by simp
qed

theorem unusable_line_skipped_witness:
  \<open>skipped (stdlib (answers [] EOF) allWritten) (''data: {"choices":'' @ ''\<newline>'')
   \<and> CHR 0x0A \<notin> set ''data: {"choices":''
   \<and> processLine (stdlib (answers [] EOF) allWritten) (newTask freshConn)
        (''data: {"choices":'' @ ''\<newline>'') = newTask freshConn
   \<and> emitted freshConn
        (streamLoop (stdlib (answers [] EOF) allWritten) EOF
           (''data: {"choices":'' @ ''\<newline>'' @ ''data: {"choices":[{"delta":{"content":"Hi"}}]}\<newline>'')
           (newTask freshConn)) = [''AI: Hi'']\<close>
proof -
  have s: \<open>skipped (stdlib (answers [] EOF) allWritten) (''data: {"choices":'' @ ''\<newline>'')\<close>
    by (simp add: skipped_def stdlib_def strings_eval json_eval)
  have n: \<open>CHR 0x0A \<notin> set ''data: {"choices":''\<close>
    by simp
  have r: \<open>emitted freshConn
        (streamLoop (stdlib (answers [] EOF) allWritten) EOF
           ''data: {"choices":[{"delta":{"content":"Hi"}}]}\<newline>''
           (newTask freshConn)) = [''AI: Hi'']\<close>
    by (simp add: emitted_def relay_eval strings_eval json_eval)
  from unusable_line_skipped [OF s n, of "newTask freshConn" EOF
      \<open>''data: {"choices":[{"delta":{"content":"Hi"}}]}\<newline>''\<close>] s n r
  show ?thesis by simp
qed

lemma acceptLoop_Do: "acceptLoop (W\<lparr>Do := d\<rparr>) h = acceptLoop W h"
proof (induction W h rule: acceptLoop.induct)
  case (1 W h)
  have r: "ReadJSON (W\<lparr>Do := d\<rparr>) (hconn h) = ReadJSON W (hconn h)"
    by (simp add: ReadJSON_def split: list.splits inbound.splits)
  show ?case
  proof (cases "ReadJSON W (hconn h)")
    case None
    with r show ?thesis by (simp add: acceptLoop.simps [of W h] acceptLoop.simps [of "W\<lparr>Do := d\<rparr>" h])
  next
    case (Some x)
    obtain c res where x: "x = (c, res)" by (cases x)
    show ?thesis
    proof (cases res)
      case (Inl err)
      with r Some x show ?thesis
        by (simp add: acceptLoop.simps [of W h] acceptLoop.simps [of "W\<lparr>Do := d\<rparr>" h])
    next
      case (Inr msg)
      with r Some x "1.IH" [OF Some x [symmetric] Inr] show ?thesis
        by (simp add: acceptLoop.simps [of W h] acceptLoop.simps [of "W\<lparr>Do := d\<rparr>" h])
    qed
  qed
qed

text \<open>
  C6. When the request fails, the task prints the error and returns; it has written no
  frame and left the connection as it was. What the network does has no part in the
  accept loop of the connection.
\<close>

theorem failed_request_is_silent:
  assumes "Do W (buildRequest key message) = Inl err"
  shows "streamResponse W key message c =
      \<lparr>conn = c, stdout = Println [''Error calling OpenAI API:'', err],
       requests = [buildRequest key message], isFirstToken = True, returned = True\<rparr>
    \<and> emitted c (streamResponse W key message c) = []
    \<and> handleWebSocket W cl n c = handleWebSocket (W\<lparr>Do := d\<rparr>) cl n c"
  using assms
  by (simp add: streamResponse_def newTask_def Let_def emitted_def handleWebSocket_def
      acceptLoop_Do)

theorem failed_request_is_silent_witness:
  "Do (stdlib unreachable allWritten) (buildRequest ''k'' ''hello'') =
     Inl ''dial tcp: connection refused''
   \<and> streamResponse (stdlib unreachable allWritten) ''k'' ''hello'' freshConn =
      \<lparr>conn = freshConn,
       stdout = ''Error calling OpenAI API: dial tcp: connection refused\<newline>'',
       requests = [buildRequest ''k'' ''hello''], isFirstToken = True, returned = True\<rparr>
   \<and> emitted freshConn (streamResponse (stdlib unreachable allWritten) ''k'' ''hello'' freshConn) = []"
proof -
  have a: "Do (stdlib unreachable allWritten) (buildRequest ''k'' ''hello'') =
     Inl ''dial tcp: connection refused''"
    by (simp add: stdlib_def unreachable_def)
  from failed_request_is_silent
      [OF a, where c = freshConn and cl = Map.empty and n = 0 and d = unreachable] a
  show ?thesis by (simp add: Println_def emitted_def)
qed
section \<open>The accept loop\<close>

lemma acceptLoop_fails:
  "inbox (hconn h) = bad # rest \<Longrightarrow> readFails W bad \<Longrightarrow>
   acceptLoop W h = h\<lparr>hconn := (hconn h)\<lparr>inbox := rest\<rparr>, broke := True\<rparr>"
  by (subst acceptLoop.simps)
     (auto simp: ReadJSON_def readFails_def isl_def split: inbound.splits)

lemma acceptLoop_reads:
  "inbox (hconn h) = i # rest \<Longrightarrow> \<not> readFails W i \<Longrightarrow>
   acceptLoop W h =
     acceptLoop W (h\<lparr>hconn := (hconn h)\<lparr>inbox := rest\<rparr>,
                     spawned := spawned h @ [messageText W i]\<rparr>)"
  by (subst acceptLoop.simps)
     (auto simp: ReadJSON_def readFails_def messageText_def isl_def
           split: inbound.splits sum.splits)

lemma acceptLoop_prefix:
  "inbox (hconn h) = good @ bad # rest \<Longrightarrow> list_all (\<lambda>i. \<not> readFails W i) good \<Longrightarrow>
   readFails W bad \<Longrightarrow>
   acceptLoop W h =
     h\<lparr>hconn := (hconn h)\<lparr>inbox := rest\<rparr>,
       spawned := spawned h @ map (messageText W) good, broke := True\<rparr>"
proof (induction good arbitrary: h)
  case Nil
  then show ?case by (simp add: acceptLoop_fails)
next
  case (Cons i good)
  let ?h = "h\<lparr>hconn := (hconn h)\<lparr>inbox := good @ bad # rest\<rparr>,
               spawned := spawned h @ [messageText W i]\<rparr>"
  from Cons.prems have "acceptLoop W h = acceptLoop W ?h"
    by (intro acceptLoop_reads) simp_all
  moreover from Cons.prems have "acceptLoop W ?h =
      ?h\<lparr>hconn := (hconn ?h)\<lparr>inbox := rest\<rparr>,
         spawned := spawned ?h @ map (messageText W) good, broke := True\<rparr>"
    by (intro Cons.IH) simp_all
  ultimately show ?case by simp
qed

text \<open>
  C7. When a read fails, after any number of reads that did not, the loop is left and
  the function returns with the connection deleted from \<open>clients\<close>. It has written
  nothing on the connection, and has read nothing after the read that failed.
\<close>

theorem read_error_ends_handler:
  assumes "inbox s = good @ bad # rest"
    and "list_all (\<lambda>i. \<not> readFails W i) good"
    and "readFails W bad"
  shows "handleWebSocket W cl c s =
      \<lparr>clients = cl(c := None), hconn = s\<lparr>inbox := rest\<rparr>,
       spawned = map (messageText W) good, broke = True, finished = True\<rparr>
    \<and> writeCalls (hconn (handleWebSocket W cl c s)) = writeCalls s"
proof -
  let ?h = "\<lparr>clients = cl(c \<mapsto> True), hconn = s, spawned = [], broke = False,
             finished = False\<rparr>"
  have "acceptLoop W ?h =
      ?h\<lparr>hconn := (hconn ?h)\<lparr>inbox := rest\<rparr>,
         spawned := spawned ?h @ map (messageText W) good, broke := True\<rparr>"
    using assms by (intro acceptLoop_prefix) simp_all
  then show ?thesis by (simp add: handleWebSocket_def)
qed

theorem read_error_ends_handler_witness:
  \<open>inbox (freshConn\<lparr>inbox := [Frame ''{"text":"hello"}'', Frame ''{"text":5}'',
        Frame ''{"text":"late"}'']\<rparr>) =
     [Frame ''{"text":"hello"}''] @ Frame ''{"text":5}'' # [Frame ''{"text":"late"}'']
   \<and> list_all (\<lambda>i. \<not> readFails (stdlib unreachable allWritten) i) [Frame ''{"text":"hello"}'']
   \<and> readFails (stdlib unreachable allWritten) (Frame ''{"text":5}'')
   \<and> handleWebSocket (stdlib unreachable allWritten) [3 \<mapsto> True] 7
        (freshConn\<lparr>inbox := [Frame ''{"text":"hello"}'', Frame ''{"text":5}'',
           Frame ''{"text":"late"}'']\<rparr>) =
      \<lparr>clients = [3 \<mapsto> True], hconn = freshConn\<lparr>inbox := [Frame ''{"text":"late"}'']\<rparr>,
       spawned = [''hello''], broke = True, finished = True\<rparr>\<close>
proof -
  have a: \<open>inbox (freshConn\<lparr>inbox := [Frame ''{"text":"hello"}'', Frame ''{"text":5}'',
        Frame ''{"text":"late"}'']\<rparr>) =
     [Frame ''{"text":"hello"}''] @ Frame ''{"text":5}'' # [Frame ''{"text":"late"}'']\<close>
    by simp
  have d1: \<open>json_Decode ''{"text":"hello"}'' = Inr \<lparr>Text = ''hello''\<rparr>\<close>
    by (simp add: json_eval strings_eval)
  have d2: \<open>json_Decode ''{"text":5}'' = Inl ''json: cannot unmarshal number''\<close>
    by (simp add: json_eval strings_eval)
  have b: \<open>list_all (\<lambda>i. \<not> readFails (stdlib unreachable allWritten) i)
      [Frame ''{"text":"hello"}'']\<close>
    by (simp add: readFails_def stdlib_def d1)
  have c: \<open>readFails (stdlib unreachable allWritten) (Frame ''{"text":5}'')\<close>
    by (simp add: readFails_def stdlib_def d2)
  have m: \<open>messageText (stdlib unreachable allWritten) (Frame ''{"text":"hello"}'') = ''hello''\<close>
    by (simp add: messageText_def stdlib_def d1)
  have k: "[3 \<mapsto> True](7 := None) = [3::nat \<mapsto> True]"
    by (rule ext) simp
  from read_error_ends_handler [OF a b c, of "[3 \<mapsto> True]" 7] a b c m k
  show ?thesis by simp
qed

section \<open>Startup\<close>

text \<open>
  C8, as the specification states it, fails: here the key is present, the port variable
  names no port, and the process does not serve: \<open>app.Listen\<close> returns an error,
  which \<open>main\<close> does not look at, and \<open>main\<close> returns with no listener bound.
\<close>

theorem present_key_without_serving:
  "main [''OPENAI_API_KEY'' \<mapsto> ''sk-1'', ''PORT'' \<mapsto> ''notaport''] unknownPort =
     \<lparr>printed = ''Server starting on :notaport\<newline>'', openAIKey = ''sk-1'',
      routes = [Static ''/'' ''./static'', Get ''/'' ''handleHome'',
                Get ''/ws'' ''handleWebSocket''],
      listenCalls = ['':notaport''], serving = None, exited = True\<rparr>"
  by (simp add: main_def Getenv_def unknownPort_def)

text \<open>
  C8, as the program has it. When the API key is absent, the variable unset or empty,
  the process prints the message and returns; it has set up no route, has not called
  \<open>app.Listen\<close> and serves nothing. When the key is present, the process keeps it,
  sets up its routes, prints the start line and calls \<open>app.Listen\<close> once, on the
  port of the port variable, on 8080 when that is unset or empty. It serves on that
  address exactly when the listener can be bound there; when it cannot, \<open>main\<close>
  returns and nothing is served.
\<close>

theorem main_requires_key:
  "(env ''OPENAI_API_KEY'' = None \<or> env ''OPENAI_API_KEY'' = Some [] \<longrightarrow>
      main env Listen =
        \<lparr>printed = ''Please set the OPENAI_API_KEY environment variable\<newline>'',
         openAIKey = [], routes = [], listenCalls = [], serving = None, exited = True\<rparr>)
   \<and> (env ''OPENAI_API_KEY'' = Some k \<and> k \<noteq> [] \<and>
      addr = '':'' @ (case env ''PORT'' of
                       None \<Rightarrow> ''8080''
                     | Some p \<Rightarrow> if p = [] then ''8080'' else p) \<longrightarrow>
      openAIKey (main env Listen) = k
      \<and> routes (main env Listen) =
          [Static ''/'' ''./static'', Get ''/'' ''handleHome'', Get ''/ws'' ''handleWebSocket'']
      \<and> printed (main env Listen) = ''Server starting on '' @ addr @ ''\<newline>''
      \<and> listenCalls (main env Listen) = [addr]
      \<and> serving (main env Listen) = (if Listen addr = None then Some addr else None)
      \<and> exited (main env Listen) = (Listen addr \<noteq> None))"
  by (auto simp: main_def Getenv_def Println_def Let_def split: option.splits)

theorem main_requires_key_witness:
  "(Map.empty ''OPENAI_API_KEY'' = None \<or> Map.empty ''OPENAI_API_KEY'' = Some [])
   \<and> serving (main Map.empty anyPort) = None
   \<and> listenCalls (main Map.empty anyPort) = []
   \<and> exited (main Map.empty anyPort)
   \<and> [''OPENAI_API_KEY'' \<mapsto> ''sk-1''] ''OPENAI_API_KEY'' = Some ''sk-1'' \<and> ''sk-1'' \<noteq> []
   \<and> serving (main [''OPENAI_API_KEY'' \<mapsto> ''sk-1''] anyPort) = Some '':8080''
   \<and> exited (main [''OPENAI_API_KEY'' \<mapsto> ''sk-1''] anyPort) = False
   \<and> serving (main [''OPENAI_API_KEY'' \<mapsto> ''sk-1'', ''PORT'' \<mapsto> ''3000''] anyPort) =
       Some '':3000''
   \<and> listenCalls (main [''OPENAI_API_KEY'' \<mapsto> ''sk-1'', ''PORT'' \<mapsto> ''3000''] anyPort) =
       ['':3000'']
   \<and> openAIKey (main [''OPENAI_API_KEY'' \<mapsto> ''sk-1'', ''PORT'' \<mapsto> ''3000''] anyPort) = ''sk-1''"
  using main_requires_key [of Map.empty anyPort "''sk-1''" "'':8080''"]
    main_requires_key [of "[''OPENAI_API_KEY'' \<mapsto> ''sk-1'']" anyPort "''sk-1''" "'':8080''"]
    main_requires_key [of "[''OPENAI_API_KEY'' \<mapsto> ''sk-1'', ''PORT'' \<mapsto> ''3000'']"
      anyPort "''sk-1''" "'':3000''"]
  by (simp add: anyPort_def)

section \<open>Failing writes and lines without the prefix\<close>

lemma deltaContent_WriteErr: "deltaContent (W\<lparr>WriteErr := f\<rparr>) = deltaContent W"
  by (rule ext) (simp add: deltaContent_def Let_def cong: if_cong)

lemma upstream_WriteErr: "upstream (W\<lparr>WriteErr := f\<rparr>) req = upstream W req"
  by (simp add: upstream_def)

lemma stdout_processLine: "stdout (processLine W t l) = stdout t"
  by (cases "deltaContent W l = []") (simp_all add: processLine_silent processLine_emits)

lemma stdout_streamLoop:
  "stdout (streamLoop W e buf t) =
     stdout t @ (case e of ReadFailure err \<Rightarrow> Println [''Error reading stream:'', err] | _ \<Rightarrow> [])"
proof (induction W e buf t rule: streamLoop.induct)
  case (1 W e buf t)
  show ?case
  proof (cases "ReadString buf (CHR 0x0A)")
    case None
    then show ?thesis by (cases e) (simp_all add: streamLoop_None)
  next
    case (Some x)
    obtain line rest where x: "x = (line, rest)" by (cases x)
    show ?thesis
      using "1.IH" [OF Some x [symmetric]] Some x
      by (simp add: streamLoop_Some stdout_processLine)
  qed
qed

text \<open>
  C9. Whichever writes fail, the task goes through the same lines and passes the same
  frames to \<open>WriteJSON\<close> as when none fails: \<open>"AI: "\<close> before the first fragment only,
  and it prints and returns the same. Once a fragment has been passed to
  \<open>WriteJSON\<close>, \<open>isFirstToken\<close> is false, whether or not the write succeeded.
\<close>

theorem write_failures_ignored:
  "emitted c (streamResponse (W\<lparr>WriteErr := f\<rparr>) key message c) =
     (case filter (\<lambda>s. s \<noteq> '''')
             (map (deltaContent W) (upstream W (buildRequest key message))) of
        [] \<Rightarrow> []
      | x # xs \<Rightarrow> (''AI: '' @ x) # xs)
   \<and> stdout (streamResponse (W\<lparr>WriteErr := f\<rparr>) key message c) =
       stdout (streamResponse W key message c)
   \<and> returned (streamResponse (W\<lparr>WriteErr := f\<rparr>) key message c) =
       returned (streamResponse W key message c)
   \<and> isFirstToken (processLine (W\<lparr>WriteErr := f\<rparr>) t l) =
       (isFirstToken t \<and> deltaContent W l = '''')"
proof -
  have "emitted c (streamResponse (W\<lparr>WriteErr := f\<rparr>) key message c) =
     (case filter (\<lambda>s. s \<noteq> '''')
             (map (deltaContent W) (upstream W (buildRequest key message))) of
        [] \<Rightarrow> []
      | x # xs \<Rightarrow> (''AI: '' @ x) # xs)"
    by (simp add: emitted_streamResponse map_Text_frames_False deltaContent_WriteErr
          upstream_WriteErr split: list.splits)
  moreover have "stdout (streamResponse (W\<lparr>WriteErr := f\<rparr>) key message c) =
       stdout (streamResponse W key message c)"
    by (cases "Do W (buildRequest key message)")
       (simp_all add: streamResponse_def Let_def stdout_streamLoop)
  moreover have "returned (streamResponse (W\<lparr>WriteErr := f\<rparr>) key message c) =
       returned (streamResponse W key message c)"
    by (cases "Do W (buildRequest key message)")
       (simp_all add: streamResponse_def Let_def returned_streamLoop)
  moreover have "isFirstToken (processLine (W\<lparr>WriteErr := f\<rparr>) t l) =
       (isFirstToken t \<and> deltaContent W l = '''')"
    by (simp add: isFirstToken_processLine deltaContent_WriteErr)
  ultimately show ?thesis by simp
qed

text \<open>A run where the first write fails: both frames are passed to \<open>WriteJSON\<close>, the
  second without the prefix, and only the second is delivered.\<close>

theorem write_failures_ignored_witness:
  "emitted freshConn
     (streamResponse (worldA\<lparr>WriteErr := firstWriteFails\<rparr>) ''k'' ''hello'' freshConn) =
     [''AI: Hi'', '' there'']
   \<and> delivered (conn
     (streamResponse (worldA\<lparr>WriteErr := firstWriteFails\<rparr>) ''k'' ''hello'' freshConn)) =
     [\<lparr>Text = '' there''\<rparr>]"
proof -
  have e: "emitted freshConn
      (streamResponse (worldA\<lparr>WriteErr := firstWriteFails\<rparr>) ''k'' ''hello'' freshConn) =
      [''AI: Hi'', '' there'']"
    using write_failures_ignored
      [where c = freshConn and W = worldA and f = firstWriteFails and key = "''k''"
         and message = "''hello''"]
    by (simp add: upstream_worldA deltaContent_worldA)
  have g: "delivered (conn
      (streamResponse (worldA\<lparr>WriteErr := firstWriteFails\<rparr>) ''k'' ''hello'' freshConn)) =
      [\<lparr>Text = '' there''\<rparr>]"
    by (simp add: worldA_def bodyA_def relay_eval strings_eval json_eval firstWriteFails_def)
  from e g show ?thesis by simp
qed

lemma TrimPrefix_absent: "\<not> HasPrefix s p \<Longrightarrow> TrimPrefix s p = s"
  by (simp add: TrimPrefix_def)

lemma deltaContent_bare:
  "\<not> HasPrefix (TrimSpace l) ''data: '' \<Longrightarrow> TrimSpace l \<noteq> '''' \<Longrightarrow>
   deltaContent W l = firstContent (Unmarshal W (TrimSpace l))"
  by (auto simp: deltaContent_def Let_def TrimPrefix_absent HasPrefix_def)

text \<open>
  C10. A line that after trimming is not empty and does not start with \<open>data: \<close> is
  given to the decoder whole, and the task emits its first content if that is not
  empty. For one such line, the bare JSON of a chunk with content \<open>Hi\<close>, the task
  emits the frame \<open>AI: Hi\<close>.
\<close>

theorem bare_line_is_decoded:
  \<open>(\<not> HasPrefix (TrimSpace l) ''data: '' \<and> TrimSpace l \<noteq> '''' \<longrightarrow>
      writeCalls (conn (processLine W t l)) =
        writeCalls (conn t) @
        frames (isFirstToken t)
          (filter (\<lambda>s. s \<noteq> '''') [firstContent (Unmarshal W (TrimSpace l))]))
   \<and> (\<exists>line s. \<not> HasPrefix line ''data: '' \<and> s \<noteq> ''''
        \<and> line = ''{"choices":[{"delta":{"content":"'' @ s @ ''"}}]}''
        \<and> emitted freshConn
            (streamResponse (stdlib (answers (line @ ''\<newline>'') EOF) allWritten)
               ''k'' ''hello'' freshConn) = [''AI: '' @ s])\<close>
proof
  show \<open>\<not> HasPrefix (TrimSpace l) ''data: '' \<and> TrimSpace l \<noteq> '''' \<longrightarrow>
      writeCalls (conn (processLine W t l)) =
        writeCalls (conn t) @
        frames (isFirstToken t)
          (filter (\<lambda>s. s \<noteq> '''') [firstContent (Unmarshal W (TrimSpace l))])\<close>
    by (simp add: writeCalls_processLine deltaContent_bare)
next
  have \<open>\<not> HasPrefix ''{"choices":[{"delta":{"content":"Hi"}}]}'' ''data: ''\<close>
    by (simp add: HasPrefix_def)
  moreover have \<open>emitted freshConn
      (streamResponse
         (stdlib (answers (''{"choices":[{"delta":{"content":"Hi"}}]}'' @ ''\<newline>'') EOF)
            allWritten)
         ''k'' ''hello'' freshConn) = [''AI: '' @ ''Hi'']\<close>
    by (simp add: emitted_def relay_eval strings_eval json_eval)
  ultimately show \<open>\<exists>line s. \<not> HasPrefix line ''data: '' \<and> s \<noteq> ''''
        \<and> line = ''{"choices":[{"delta":{"content":"'' @ s @ ''"}}]}''
        \<and> emitted freshConn
            (streamResponse (stdlib (answers (line @ ''\<newline>'') EOF) allWritten)
               ''k'' ''hello'' freshConn) = [''AI: '' @ s]\<close>
    by (intro exI [of _ \<open>''{"choices":[{"delta":{"content":"Hi"}}]}''\<close>] exI [of _ "''Hi''"])
       simp
qed

theorem bare_line_is_decoded_witness:
  \<open>\<not> HasPrefix (TrimSpace ''{"choices":[{"delta":{"content":"Hi"}}]}\<newline>'') ''data: ''
   \<and> TrimSpace ''{"choices":[{"delta":{"content":"Hi"}}]}\<newline>'' \<noteq> ''''
   \<and> writeCalls (conn (processLine (stdlib unreachable allWritten) (newTask freshConn)
        ''{"choices":[{"delta":{"content":"Hi"}}]}\<newline>'')) = [\<lparr>Text = ''AI: Hi''\<rparr>]\<close>
proof -
  have tr: \<open>TrimSpace ''{"choices":[{"delta":{"content":"Hi"}}]}\<newline>'' =
      ''{"choices":[{"delta":{"content":"Hi"}}]}''\<close>
    by (simp add: strings_eval)
  have a: \<open>\<not> HasPrefix (TrimSpace ''{"choices":[{"delta":{"content":"Hi"}}]}\<newline>'') ''data: ''\<close>
    unfolding tr by (simp add: HasPrefix_def)
  have b: \<open>TrimSpace ''{"choices":[{"delta":{"content":"Hi"}}]}\<newline>'' \<noteq> ''''\<close>
    unfolding tr by simp
  have u: \<open>firstContent (Unmarshal (stdlib unreachable allWritten)
      ''{"choices":[{"delta":{"content":"Hi"}}]}'') = ''Hi''\<close>
    by (simp add: firstContent_def stdlib_def json_eval strings_eval)
  from bare_line_is_decoded
    [where l = \<open>''{"choices":[{"delta":{"content":"Hi"}}]}\<newline>''\<close>
       and W = "stdlib unreachable allWritten" and t = "newTask freshConn"] a b
  show ?thesis by (simp add: tr u newTask_def freshConn_def)
qed

end
